theory Spec2Isabelle
  imports Complex_Main "HOL-Library.Multiset"
begin

section \<open>The AgeDB training harness (ageDB\_scratch.py)\<close>

text \<open>
  The script assembles calls into a tensor framework. What the script itself decides
  (the derived run name, the choice of criterion and of the per-batch loss expression,
  the evaluation statistics, the resume block and the checkpoint bookkeeping of the
  epoch loop) is embedded below function by function. What the framework and the
  helper modules \<open>utils\<close>, \<open>loss\<close>, \<open>models\<close> and \<open>dataset\<close> supply is a parameter,
  collected in the record \<open>env\<close>. Metric values are real numbers: finite floats
  ordered as the reals are; rounding and NaN are outside the model. Moving tensors
  between devices (\<open>.cuda()\<close>, \<open>.cpu().detach().numpy()\<close>) is the identity on values.
\<close>

subsection \<open>Errors\<close>

datatype error =
    IndexError
  | KeyError string
  | TypeError
  | ValueError
  | ZeroDivisionError
  | FileNotFoundError
  | SystemExit
  | RuntimeError

subsection \<open>Strings: decimal integers, split, os.path.join\<close>

definition digit :: "nat \<Rightarrow> char" where
  "digit d = char_of (48 + d)"

function str_nat :: "nat \<Rightarrow> string" where
  "str_nat n = (if n < 10 then [digit n] else str_nat (n div 10) @ [digit (n mod 10)])"
  by pat_completeness auto
termination
  by (relation "measure id") auto

declare str_nat.simps [simp del]

definition str_int :: "int \<Rightarrow> string" where
  "str_int i = (if i < 0 then CHR ''-'' # str_nat (nat (- i)) else str_nat (nat i))"

text \<open>\<open>s.split(sep)\<close> for a one-character separator: the fields between the separators,
  at least one.\<close>

fun split :: "char \<Rightarrow> string \<Rightarrow> string list" where
  "split sep [] = [[]]"
| "split sep (c # cs) =
     (if c = sep then [] # split sep cs
      else (case split sep cs of
              [] \<Rightarrow> [[c]]
            | f # fs \<Rightarrow> (c # f) # fs))"

text \<open>\<open>xs[-2]\<close>: the last element but one, IndexError on fewer than two.\<close>

definition index_m2 :: "'a list \<Rightarrow> error + 'a" where
  "index_m2 xs = (if length xs < 2 then Inl IndexError else Inr (xs ! (length xs - 2)))"

text \<open>\<open>os.path.join(a, b)\<close> on POSIX.\<close>

definition path_join :: "string \<Rightarrow> string \<Rightarrow> string" where
  "path_join a b =
     (if b \<noteq> [] \<and> hd b = CHR ''/'' then b
      else if a = [] \<or> last a = CHR ''/'' then a @ b
      else a @ ''/'' @ b)"

subsection \<open>Options\<close>

record opt =
  print_freq :: int
  save_freq :: int
  save_curr_freq :: int
  batch_size :: int
  num_workers :: int
  epochs :: int
  learning_rate :: real
  lr_decay_rate :: real
  weight_decay :: real
  momentum :: real
  alpha :: real
  trial :: string
  loss :: string
  data_folder :: string
  dataset :: string
  model :: string
  resume :: string
  aug :: string
  model_path :: string
  model_name :: string
  save_folder :: string

text \<open>The defaults of the argument parser; the three derived fields are empty until
  \<open>parse_option\<close> fills them.\<close>

definition default_opt :: opt where
  "default_opt =
     \<lparr> print_freq = 10, save_freq = 100, save_curr_freq = 1, batch_size = 256,
       num_workers = 1, epochs = 400, learning_rate = 2 / 10, lr_decay_rate = 1 / 10,
       weight_decay = 1 / 10000, momentum = 9 / 10, alpha = 1, trial = ''0'',
       loss = ''FAR'', data_folder = ''../Rank-N-Contrast/data'', dataset = ''AgeDB'',
       model = ''resnet18'', resume = [], aug = ''crop,flip,color,grayscale'',
       model_path = [], model_name = [], save_folder = [] \<rparr>"

text \<open>
  \<open>parse_option\<close>, lines 40 to 67, on the parsed arguments. \<open>fstr\<close> is Python's
  \<open>'{}'.format\<close> of a float, a parameter. The two \<open>choices\<close> lists make the parser exit
  on any other dataset or model. Creating the folder and opening the log file do not
  change the options and are left out.
\<close>

definition default_model_name :: "(real \<Rightarrow> string) \<Rightarrow> opt \<Rightarrow> string" where
  "default_model_name fstr o' =
     loss o' @ ''_'' @ dataset o' @ ''_'' @ model o' @ ''_ep_'' @ str_int (epochs o')
       @ ''_lr_'' @ fstr (learning_rate o') @ ''_d_'' @ fstr (lr_decay_rate o')
       @ ''_wd_'' @ fstr (weight_decay o') @ ''_alpha_'' @ fstr (alpha o')
       @ ''_mmt_'' @ fstr (momentum o') @ ''_bsz_'' @ str_int (batch_size o')
       @ ''_aug_'' @ aug o' @ ''_trial_'' @ trial o'"

definition parse_option :: "(real \<Rightarrow> string) \<Rightarrow> opt \<Rightarrow> error + opt" where
  "parse_option fstr args =
     (if dataset args \<noteq> ''AgeDB'' then Inl SystemExit
      else if model args \<noteq> ''resnet18'' \<and> model args \<noteq> ''resnet50'' then Inl SystemExit
      else
        let o1 = args\<lparr>model_path := ''./save/'' @ dataset args @ ''_models''\<rparr>;
            o2 = o1\<lparr>model_name := default_model_name fstr o1\<rparr>
        in (case (if resume o2 \<noteq> []
                  then (case index_m2 (split (CHR ''/'') (resume o2)) of
                          Inl e \<Rightarrow> Inl e
                        | Inr n \<Rightarrow> Inr (o2\<lparr>model_name := n\<rparr>))
                  else Inr o2) of
              Inl e \<Rightarrow> Inl e
            | Inr o3 \<Rightarrow> Inr (o3\<lparr>save_folder := path_join (model_path o3) (model_name o3)\<rparr>)))"

subsection \<open>Criterion and per-batch loss\<close>

text \<open>
  Tensors are values of an abstract type \<open>'t\<close>. The script never looks inside a tensor
  while training; it only decides which routine is called on which tensors. A loss is
  therefore the expression the script builds: which routine, applied to which arguments,
  in the order the call site passes them.
\<close>

datatype criterion = FAR real string | L1Loss

datatype 't loss_expr =
    Criterion criterion "'t list"
  | ConR 't 't 't
  | batchwise_ranking_regularizer 't 't real
  | weighted_focal_l1_loss 't 't real
  | weighted_focal_mse_loss 't 't real
  | Plus "'t loss_expr" "'t loss_expr"
  | Times real "'t loss_expr"

text \<open>The criterion chosen by \<open>set_model\<close>, lines 104 to 107.\<close>

definition set_criterion :: "opt \<Rightarrow> criterion" where
  "set_criterion o' =
     (if loss o' \<in> set [''FAR'', ''FAR-EXP''] then FAR (alpha o') (loss o') else L1Loss)"

text \<open>The loss of one batch, lines 138 to 147 of \<open>train\<close>.\<close>

definition train_loss :: "opt \<Rightarrow> criterion \<Rightarrow> 't \<Rightarrow> 't \<Rightarrow> 't \<Rightarrow> 't loss_expr" where
  "train_loss o' crit output labels feat =
     (if loss o' = ''ConR''
        then Plus (Criterion crit [output, labels]) (Times (alpha o') (ConR feat labels output))
      else if loss o' = ''ranksim''
        then Plus (Criterion crit [output, labels])
                  (batchwise_ranking_regularizer feat labels (alpha o'))
      else if loss o' = ''focal-l1'' then weighted_focal_l1_loss output labels (alpha o')
      else if loss o' = ''focal-mse'' then weighted_focal_mse_loss output labels (alpha o')
      else Criterion crit [output, labels])"

subsection \<open>The framework and the helper modules\<close>

text \<open>A persisted object: \<open>torch.save\<close> pickles a dictionary from keys to values.\<close>

datatype ('w, 'o) pyval = PInt int | PFloat real | PModel 'w | POptim 'o | POpt opt | PNone

datatype ('w, 'o) pyfile = Corrupt | NonDict | Dict "string \<rightharpoonup> ('w, 'o) pyval"

type_synonym ('w, 'o) files = "string \<rightharpoonup> ('w, 'o) pyfile"

type_synonym 't loader = "('t \<times> 't) list"

text \<open>
  \<open>'w\<close> is the parameters of the network (its state dictionary), \<open>'o\<close> the state of the
  optimizer. A loader is the list of its batches, each a pair of images and labels;
  the training loader is shuffled, so its batches depend on the epoch.
  \<open>save_model\<close> (module \<open>utils\<close>) is called with the model, the optimizer, the options
  and the epoch, and the file name: it is the object it stores under that name, a
  function of the first four.
\<close>

record ('w, 'o, 't) env =
  float_str :: "real \<Rightarrow> string"
  SupResNet :: "string \<Rightarrow> int \<Rightarrow> 'w"
  get_label_dim :: "string \<Rightarrow> int"
  forward :: "'w \<Rightarrow> bool \<Rightarrow> 't \<Rightarrow> 't \<times> 't"
  numpy :: "'t \<Rightarrow> real list"
  train_loader :: "string \<Rightarrow> string \<Rightarrow> string \<Rightarrow> int \<Rightarrow> int \<Rightarrow> int \<Rightarrow> 't loader"
  val_loader :: "string \<Rightarrow> string \<Rightarrow> string \<Rightarrow> int \<Rightarrow> int \<Rightarrow> 't loader"
  test_loader :: "string \<Rightarrow> string \<Rightarrow> string \<Rightarrow> int \<Rightarrow> int \<Rightarrow> 't loader"
  set_optimizer :: "opt \<Rightarrow> 'w \<Rightarrow> 'o"
  adjust_learning_rate :: "opt \<Rightarrow> 'o \<Rightarrow> int \<Rightarrow> 'o"
  optimizer_step :: "'t loss_expr \<Rightarrow> 'w \<Rightarrow> 'o \<Rightarrow> 'w \<times> 'o"
  save_model :: "'w \<Rightarrow> 'o \<Rightarrow> opt \<Rightarrow> int \<Rightarrow> ('w, 'o) pyfile"
  load_state_dict :: "'w \<Rightarrow> 'w \<Rightarrow> error + 'w"
  optimizer_load_state_dict :: "'o \<Rightarrow> 'o \<Rightarrow> error + 'o"

text \<open>The network: its parameters and the mode flag that \<open>model.train()\<close> and
  \<open>model.eval()\<close> set.\<close>

record 'w net =
  weights :: 'w
  training :: bool

text \<open>\<open>set_model\<close>, lines 102 to 116.\<close>

definition set_model :: "('w, 'o, 't) env \<Rightarrow> opt \<Rightarrow> 'w net \<times> criterion" where
  "set_model E o' =
     (\<lparr> weights = SupResNet E (model o') (get_label_dim E (dataset o')), training = True \<rparr>,
      set_criterion o')"

text \<open>
  \<open>train\<close>, lines 119 to 166: one pass over the batches. Each batch is a forward pass,
  the loss, and one optimizer step (\<open>zero_grad\<close>, \<open>backward\<close>, \<open>step\<close>); then
  \<open>(idx + 1) % opt.print_freq\<close> is evaluated, which raises when \<open>print_freq\<close> is zero.
  The meters and the progress line are timing output and are left out.
\<close>

fun train_batches ::
  "('w, 'o, 't) env \<Rightarrow> opt \<Rightarrow> criterion \<Rightarrow> 't loader \<Rightarrow> 'w \<Rightarrow> 'o \<Rightarrow> error + ('w \<times> 'o)" where
  "train_batches E o' crit [] w s = Inr (w, s)"
| "train_batches E o' crit ((images, labels) # bs) w s =
     (case forward E w True images of
        (output, feat) \<Rightarrow>
          (case optimizer_step E (train_loss o' crit output labels feat) w s of
             (w', s') \<Rightarrow>
               if print_freq o' = 0 then Inl ZeroDivisionError
               else train_batches E o' crit bs w' s'))"

definition train ::
  "('w, 'o, 't) env \<Rightarrow> opt \<Rightarrow> criterion \<Rightarrow> 't loader \<Rightarrow> 'w net \<Rightarrow> 'o \<Rightarrow> error + ('w net \<times> 'o)" where
  "train E o' crit batches m s =
     (case train_batches E o' crit batches (weights m) s of
        Inl e \<Rightarrow> Inl e
      | Inr (w', s') \<Rightarrow> Inr (\<lparr> weights = w', training = True \<rparr>, s'))"

subsection \<open>Evaluation statistics\<close>

text \<open>
  Arrays are lists of reals. \<open>mean\<close> is \<open>ndarray.mean\<close>; on an empty array numpy gives
  NaN and HOL gives 0, and a loader never yields an empty batch.
\<close>

definition mean :: "real list \<Rightarrow> real" where
  "mean xs = sum_list xs / real (length xs)"

definition MAE :: "real list \<Rightarrow> real list \<Rightarrow> real" where
  "MAE pred truth = mean (map2 (\<lambda>p t. \<bar>p - t\<bar>) pred truth)"

definition RMSE :: "real list \<Rightarrow> real list \<Rightarrow> real" where
  "RMSE pred truth = sqrt (mean (map2 (\<lambda>p t. (p - t)\<^sup>2) pred truth))"

text \<open>
  The three library statistics, after their documentation. \<open>numpy.corrcoef\<close>: the
  covariance (normalised by \<open>N - 1\<close>) divided by both standard deviations, clipped to
  \<open>[-1, 1]\<close>. \<open>scipy.stats.spearmanr\<close>: the same on the average ranks.
  \<open>sklearn.metrics.r2_score\<close>: one minus the residual sum of squares over the total sum
  of squares; with a zero total it is 1 for a perfect fit and 0 otherwise.
\<close>

definition cov :: "real list \<Rightarrow> real list \<Rightarrow> real" where
  "cov xs ys =
     sum_list (map2 (\<lambda>x y. (x - mean xs) * (y - mean ys)) xs ys) / (real (length xs) - 1)"

definition corrcoef :: "real list \<Rightarrow> real list \<Rightarrow> real" where
  "corrcoef xs ys = max (- 1) (min 1 (cov xs ys / sqrt (cov xs xs) / sqrt (cov ys ys)))"

definition rank :: "real list \<Rightarrow> real \<Rightarrow> real" where
  "rank xs v =
     real (length (filter (\<lambda>x. x < v) xs)) + (real (length (filter (\<lambda>x. x = v) xs)) + 1) / 2"

definition rankdata :: "real list \<Rightarrow> real list" where
  "rankdata xs = map (rank xs) xs"

definition spearmanr :: "real list \<Rightarrow> real list \<Rightarrow> real" where
  "spearmanr xs ys = corrcoef (rankdata xs) (rankdata ys)"

definition r2_score :: "real list \<Rightarrow> real list \<Rightarrow> real" where
  "r2_score y_true y_pred =
     (let numerator = sum_list (map2 (\<lambda>t p. (t - p)\<^sup>2) y_true y_pred);
          denominator = sum_list (map (\<lambda>t. (t - mean y_true)\<^sup>2) y_true)
      in if denominator \<noteq> 0 then 1 - numerator / denominator
         else if numerator \<noteq> 0 then 0 else 1)"

text \<open>
  \<open>validate\<close>, lines 169 to 190. \<open>model.eval()\<close> clears the mode flag, and every batch
  is a forward pass in that mode. \<open>np.concatenate\<close> raises on an empty list of arrays,
  and the statistics raise when the two arrays differ in length (the elementwise
  difference does, or \<open>np.corrcoef\<close> after numpy has broadcast an array of length one).
  The result is the list of statistics and the network as the call leaves it.
\<close>

definition batch_pred :: "('w, 'o, 't) env \<Rightarrow> 'w \<Rightarrow> 't \<times> 't \<Rightarrow> real list" where
  "batch_pred E w b = numpy E (fst (forward E w False (fst b)))"

definition batch_truth :: "('w, 'o, 't) env \<Rightarrow> 't \<times> 't \<Rightarrow> real list" where
  "batch_truth E b = numpy E (snd b)"

definition statistics :: "real list \<Rightarrow> real list \<Rightarrow> real list" where
  "statistics pred truth =
     [MAE pred truth, RMSE pred truth, corrcoef truth pred, spearmanr truth pred,
      r2_score truth pred]"

definition validate ::
  "('w, 'o, 't) env \<Rightarrow> 't loader \<Rightarrow> 'w net \<Rightarrow> error + (real list \<times> 'w net)" where
  "validate E loader m =
     (if loader = [] then Inl ValueError
      else
        let pred = concat (map (batch_pred E (weights m)) loader);
            truth = concat (map (batch_truth E) loader)
        in if length pred \<noteq> length truth then Inl ValueError
           else Inr (statistics pred truth, m\<lparr>training := False\<rparr>))"

subsection \<open>The resume block and the epoch loop of main\<close>

text \<open>What one epoch prints and writes: the validation statistics, the running best
  error, the test statistics, the periodic checkpoint if one is written (file name and
  object), the best checkpoint if it is written, and the best test statistics.\<close>

record ('w, 'o) epoch_out =
  epoch :: int
  valid_error :: "real list"
  best_error_out :: real
  test_error :: "real list"
  saved :: "(string \<times> ('w, 'o) pyfile) option"
  saved_best :: "(string \<times> ('w, 'o) pyfile) option"
  best_test_out :: "real list"

text \<open>The variables of \<open>main\<close> that the loop updates, the files, and the output so far.\<close>

record ('w, 'o) state =
  the_model :: "'w net"
  optimizer :: 'o
  best_error :: real
  best_test :: "real list"
  files :: "('w, 'o) files"
  outs :: "('w, 'o) epoch_out list"

text \<open>Subscripting the loaded checkpoint, \<open>ckpt_state[k]\<close>.\<close>

definition getitem :: "(string \<rightharpoonup> 'v) \<Rightarrow> string \<Rightarrow> error + 'v" where
  "getitem d k = (case d k of None \<Rightarrow> Inl (KeyError k) | Some v \<Rightarrow> Inr v)"

text \<open>\<open>torch.load\<close> of a path, followed by the first subscript: a missing file, a file
  that does not unpickle and an object that is no dictionary all raise.\<close>

definition torch_load :: "('w, 'o) files \<Rightarrow> string \<Rightarrow> error + (string \<rightharpoonup> ('w, 'o) pyval)" where
  "torch_load fs path =
     (case fs path of
        None \<Rightarrow> Inl FileNotFoundError
      | Some Corrupt \<Rightarrow> Inl RuntimeError
      | Some NonDict \<Rightarrow> Inl TypeError
      | Some (Dict d) \<Rightarrow> Inr d)"

text \<open>
  Lines 205 to 211: the model, the optimizer and the first epoch after the resume
  block. Without a resume path nothing is loaded and the first epoch is 1.
\<close>

definition resume_block ::
  "('w, 'o, 't) env \<Rightarrow> opt \<Rightarrow> ('w, 'o) files \<Rightarrow> 'w net \<Rightarrow> 'o \<Rightarrow> error + ('w net \<times> 'o \<times> int)" where
  "resume_block E o' fs m s =
     (if resume o' = [] then Inr (m, s, 1)
      else
        case torch_load fs (resume o') of Inl e \<Rightarrow> Inl e | Inr ckpt_state \<Rightarrow>
        case getitem ckpt_state ''model'' of Inl e \<Rightarrow> Inl e | Inr vm \<Rightarrow>
        case (case vm of PModel w \<Rightarrow> load_state_dict E (weights m) w | _ \<Rightarrow> Inl TypeError) of
          Inl e \<Rightarrow> Inl e | Inr w' \<Rightarrow>
        case getitem ckpt_state ''optimizer'' of Inl e \<Rightarrow> Inl e | Inr vo \<Rightarrow>
        case (case vo of POptim t \<Rightarrow> optimizer_load_state_dict E s t | _ \<Rightarrow> Inl TypeError) of
          Inl e \<Rightarrow> Inl e | Inr s' \<Rightarrow>
        case getitem ckpt_state ''epoch'' of Inl e \<Rightarrow> Inl e | Inr ve \<Rightarrow>
        case ve of
          PInt n \<Rightarrow> Inr (m\<lparr>weights := w'\<rparr>, s', n + 1)
        | _ \<Rightarrow> Inl TypeError)"

text \<open>The two file names of the loop, lines 215 and 236.\<close>

definition save_file_best :: "opt \<Rightarrow> string" where
  "save_file_best o' = path_join (save_folder o') ''best.pth''"

definition save_file :: "opt \<Rightarrow> int \<Rightarrow> string" where
  "save_file o' ep = path_join (save_folder o') (''ckpt_epoch_'' @ str_int ep @ ''.pth'')"

text \<open>The object of the best checkpoint, lines 247 to 251.\<close>

definition best_ckpt :: "int \<Rightarrow> 'w \<Rightarrow> real \<Rightarrow> ('w, 'o) pyfile" where
  "best_ckpt ep w be =
     Dict [''epoch'' \<mapsto> PInt ep, ''model'' \<mapsto> PModel w, ''best_error'' \<mapsto> PFloat be]"

text \<open>
  One turn of the loop, lines 219 to 252. \<open>epoch % opt.save_freq\<close> raises when
  \<open>save_freq\<close> is zero; HOL's \<open>mod\<close> on \<open>int\<close> is Python's otherwise. Every error of a
  turn is raised before the turn writes a file.
\<close>

definition epoch_step ::
  "('w, 'o, 't) env \<Rightarrow> opt \<Rightarrow> criterion \<Rightarrow> (int \<Rightarrow> 't loader) \<Rightarrow> 't loader \<Rightarrow> 't loader \<Rightarrow>
   ('w, 'o) state \<Rightarrow> int \<Rightarrow> error + ('w, 'o) state" where
  "epoch_step E o' crit train_batches_of val_batches test_batches st ep =
     (case train E o' crit (train_batches_of ep) (the_model st)
             (adjust_learning_rate E o' (optimizer st) ep) of
        Inl e \<Rightarrow> Inl e | Inr (m1, s1) \<Rightarrow>
      case validate E val_batches m1 of Inl e \<Rightarrow> Inl e | Inr (v_err, m2) \<Rightarrow>
      let is_best = v_err ! 0 < best_error st;
          be = min (v_err ! 0) (best_error st)
      in
      case validate E test_batches m2 of Inl e \<Rightarrow> Inl e | Inr (t_err, m3) \<Rightarrow>
      if save_freq o' = 0 then Inl ZeroDivisionError
      else
        let periodic = (if ep mod save_freq o' = 0
                        then Some (save_file o' ep, save_model E (weights m3) s1 o' ep)
                        else None);
            fs1 = (case periodic of None \<Rightarrow> files st | Some (name, obj) \<Rightarrow> (files st)(name \<mapsto> obj));
            bt = (if is_best then t_err else best_test st);
            best = (if is_best
                    then Some (save_file_best o', best_ckpt ep (weights m3) be)
                    else None);
            fs2 = (case best of None \<Rightarrow> fs1 | Some (name, obj) \<Rightarrow> fs1(name \<mapsto> obj))
        in Inr \<lparr> the_model = m3, optimizer = s1, best_error = be, best_test = bt,
                 files = fs2,
                 outs = outs st @
                   [\<lparr> epoch = ep, valid_error = v_err, best_error_out = be,
                      test_error = t_err, saved = periodic, saved_best = best,
                      best_test_out = bt \<rparr>] \<rparr>)"

text \<open>The loop: it stops at the first error, with the state of the last whole turn.\<close>

fun run_epochs ::
  "('w, 'o, 't) env \<Rightarrow> opt \<Rightarrow> criterion \<Rightarrow> (int \<Rightarrow> 't loader) \<Rightarrow> 't loader \<Rightarrow> 't loader \<Rightarrow>
   ('w, 'o) state \<Rightarrow> int list \<Rightarrow> ('w, 'o) state \<times> error option" where
  "run_epochs E o' crit trb vb tb st [] = (st, None)"
| "run_epochs E o' crit trb vb tb st (ep # eps) =
     (case epoch_step E o' crit trb vb tb st ep of
        Inl e \<Rightarrow> (st, Some e)
      | Inr st' \<Rightarrow> run_epochs E o' crit trb vb tb st' eps)"

text \<open>Lines 213 and 214.\<close>

definition init_state :: "'w net \<Rightarrow> 'o \<Rightarrow> ('w, 'o) files \<Rightarrow> ('w, 'o) state" where
  "init_state m s fs =
     \<lparr> the_model = m, optimizer = s, best_error = 10 ^ 10,
       best_test = [10 ^ 10, 10 ^ 10, 10 ^ 10, 10 ^ 10, 10 ^ 10],
       files = fs, outs = [] \<rparr>"

text \<open>\<open>set_loader\<close>, lines 70 to 99: the three loaders, built from the augmentation
  list, the dataset, the data folder, the batch size and the number of workers.\<close>

definition set_loader ::
  "('w, 'o, 't) env \<Rightarrow> opt \<Rightarrow> (int \<Rightarrow> 't loader) \<times> 't loader \<times> 't loader" where
  "set_loader E o' =
     (train_loader E (aug o') (dataset o') (data_folder o') (batch_size o') (num_workers o'),
      val_loader E (aug o') (dataset o') (data_folder o') (batch_size o') (num_workers o'),
      test_loader E (aug o') (dataset o') (data_folder o') (batch_size o') (num_workers o'))"

text \<open>The training routine, lines 213 to 252: the loop over
  \<open>range(start_epoch, opt.epochs + 1)\<close> from the initial best error.\<close>

definition training_routine ::
  "('w, 'o, 't) env \<Rightarrow> opt \<Rightarrow> criterion \<Rightarrow> (int \<Rightarrow> 't loader) \<times> 't loader \<times> 't loader \<Rightarrow>
   'w net \<Rightarrow> 'o \<Rightarrow> ('w, 'o) files \<Rightarrow> int \<Rightarrow> ('w, 'o) state \<times> error option" where
  "training_routine E o' crit loaders m s fs start_epoch =
     (case loaders of (trb, vb, tb) \<Rightarrow>
        run_epochs E o' crit trb vb tb (init_state m s fs) [start_epoch..epochs o'])"

text \<open>
  \<open>main\<close>, lines 193 to 252, on the parsed arguments and the files it finds. \<open>Inl\<close> is
  an error before the loop; otherwise the state the loop ends in and the error that
  ended it, if any.
\<close>

definition main ::
  "('w, 'o, 't) env \<Rightarrow> opt \<Rightarrow> ('w, 'o) files \<Rightarrow> error + (('w, 'o) state \<times> error option)" where
  "main E args fs =
     (case parse_option (float_str E) args of Inl e \<Rightarrow> Inl e | Inr o' \<Rightarrow>
      case set_model E o' of (m0, crit) \<Rightarrow>
      case resume_block E o' fs m0 (set_optimizer E o' (weights m0)) of
        Inl e \<Rightarrow> Inl e
      | Inr (m, s, start_epoch) \<Rightarrow>
          Inr (training_routine E o' crit (set_loader E o') m s fs start_epoch))"

subsection \<open>Notions the properties are stated with\<close>

text \<open>The two derived names of a run, or the error of the option parser.\<close>

definition derived_names :: "(real \<Rightarrow> string) \<Rightarrow> opt \<Rightarrow> error + (string \<times> string)" where
  "derived_names fstr args =
     (case parse_option fstr args of
        Inl e \<Rightarrow> Inl e
      | Inr o' \<Rightarrow> Inr (model_name o', save_folder o'))"

text \<open>Two option sets with the same run configuration: loss, dataset, model, epochs,
  learning rate, decay rate, weight decay, alpha, momentum, batch size, augmentation
  list, trial and resume path.\<close>

definition same_run_config :: "opt \<Rightarrow> opt \<Rightarrow> bool" where
  "same_run_config a b =
     (loss a = loss b \<and> dataset a = dataset b \<and> model a = model b \<and> epochs a = epochs b \<and>
      learning_rate a = learning_rate b \<and> lr_decay_rate a = lr_decay_rate b \<and>
      weight_decay a = weight_decay b \<and> alpha a = alpha b \<and> momentum a = momentum b \<and>
      batch_size a = batch_size b \<and> aug a = aug b \<and> trial a = trial b \<and> resume a = resume b)"

text \<open>Epoch \<open>i\<close> of a run improves: its validation MAE is strictly less than the
  baseline and than every validation MAE observed before it.\<close>

definition improves :: "real \<Rightarrow> real list \<Rightarrow> nat \<Rightarrow> bool" where
  "improves b0 vs i = (\<forall>v \<in> set (b0 # take i vs). vs ! i < v)"

text \<open>The validation MAE of each epoch of a run, in order.\<close>

definition valid_maes :: "('w, 'o) epoch_out list \<Rightarrow> real list" where
  "valid_maes rs = map (\<lambda>r. valid_error r ! 0) rs"


subsection \<open>The bookkeeping of a trace\<close>

text \<open>
  What one turn of the loop puts out, given the best error \<open>b\<close> and the best test
  statistics \<open>t\<close> it starts from: the running best error, the best test statistics, the
  best checkpoint exactly when the validation MAE is below \<open>b\<close>, and the periodic
  checkpoint exactly when the epoch is a multiple of \<open>save_freq\<close>. A trace is in order
  when every turn is, each starting from what the turn before put out.
\<close>

definition turn_ok ::
  "('w, 'o, 't) env \<Rightarrow> opt \<Rightarrow> real \<Rightarrow> real list \<Rightarrow> ('w, 'o) epoch_out \<Rightarrow> bool" where
  "turn_ok E o' b t r =
     (best_error_out r = min (valid_error r ! 0) b \<and>
      best_test_out r = (if valid_error r ! 0 < b then test_error r else t) \<and>
      (case saved_best r of
         None \<Rightarrow> \<not> valid_error r ! 0 < b
       | Some (name, obj) \<Rightarrow>
           valid_error r ! 0 < b \<and> name = save_file_best o' \<and>
           (\<exists>w. obj = best_ckpt (epoch r) w (min (valid_error r ! 0) b))) \<and>
      save_freq o' \<noteq> 0 \<and>
      (case saved r of
         None \<Rightarrow> epoch r mod save_freq o' \<noteq> 0
       | Some (name, obj) \<Rightarrow>
           epoch r mod save_freq o' = 0 \<and> name = save_file o' (epoch r) \<and>
           (\<exists>w s. obj = save_model E w s o' (epoch r))))"

fun trace_ok ::
  "('w, 'o, 't) env \<Rightarrow> opt \<Rightarrow> real \<Rightarrow> real list \<Rightarrow> ('w, 'o) epoch_out list \<Rightarrow> bool" where
  "trace_ok E o' b t [] = True"
| "trace_ok E o' b t (r # rs) =
     (turn_ok E o' b t r \<and> trace_ok E o' (best_error_out r) (best_test_out r) rs)"

subsection \<open>A small world to run the script in\<close>

text \<open>
  The parameters of the network count the optimizer steps taken, and the network
  multiplies its input by a factor that depends on them, so that with one training
  batch per epoch the validation MAE of epochs 1 to 4 is 5, 3, 4, 2 and the test MAE
  is twice that.
\<close>

definition demo_scale :: "nat \<Rightarrow> real" where
  "demo_scale w = (if w = 1 then 5 else if w = 2 then 3 else if w = 3 then 4 else 2)"

definition demo_env :: "(nat, nat, real list) env" where
  "demo_env =
     \<lparr> float_str = (\<lambda>r. ''x''),
       SupResNet = (\<lambda>name num_classes. 0),
       get_label_dim = (\<lambda>d. 1),
       forward = (\<lambda>w tr images. (map (\<lambda>x. x * demo_scale w) images, images)),
       numpy = (\<lambda>t. t),
       train_loader = (\<lambda>a d f b n ep. [([1], [1])]),
       val_loader = (\<lambda>a d f b n. [([1], [0])]),
       test_loader = (\<lambda>a d f b n. [([2], [0])]),
       set_optimizer = (\<lambda>o' w. 0),
       adjust_learning_rate = (\<lambda>o' s ep. s),
       optimizer_step = (\<lambda>l w s. (Suc w, Suc s)),
       save_model = (\<lambda>w s o' ep.
          Dict [''model'' \<mapsto> PModel w, ''optimizer'' \<mapsto> POptim s, ''epoch'' \<mapsto> PInt ep]),
       load_state_dict = (\<lambda>w w'. Inr w'),
       optimizer_load_state_dict = (\<lambda>s s'. Inr s') \<rparr>"

definition demo_args :: opt where
  "demo_args = default_opt\<lparr>epochs := 4, save_freq := 2, loss := ''mse''\<rparr>"





section \<open>Properties\<close>

subsection \<open>Loss selection\<close>








subsection \<open>Evaluation\<close>






























subsection \<open>The epoch loop\<close>

text \<open>Every turn of the loop extends the output by one entry that is in order, and
  the loop as a whole by a trace that is in order.\<close>

lemma epoch_step_last:
  assumes "epoch_step E o' crit trb vb tb st ep = Inr st'"
  shows "outs st' = outs st @ [last (outs st')] \<and> epoch (last (outs st')) = ep \<and>
         turn_ok E o' (best_error st) (best_test st) (last (outs st')) \<and>
         best_error st' = best_error_out (last (outs st')) \<and>
         best_test st' = best_test_out (last (outs st'))"
  using assms
  by (auto simp: epoch_step_def turn_ok_def Let_def
        split: sum.splits prod.splits if_splits intro!: exI)

lemma epoch_step_out:
  assumes "epoch_step E o' crit trb vb tb st ep = Inr st'"
  shows "\<exists>r. outs st' = outs st @ [r] \<and> epoch r = ep \<and>
             turn_ok E o' (best_error st) (best_test st) r \<and>
             best_error st' = best_error_out r \<and> best_test st' = best_test_out r"
  using epoch_step_last [OF assms] by blast

lemma trace_ok_append:
  "trace_ok E o' b t (rs @ [r])
     = (trace_ok E o' b t rs \<and>
        turn_ok E o' (last (b # map best_error_out rs)) (last (t # map best_test_out rs)) r)"
  by (induction rs arbitrary: b t) auto

lemma run_epochs_trace:
  assumes "run_epochs E o' crit trb vb tb st eps = (st', err)"
  shows "\<exists>rs. outs st' = outs st @ rs \<and>
              trace_ok E o' (best_error st) (best_test st) rs \<and>
              map epoch rs = take (length rs) eps \<and>
              best_error st' = last (best_error st # map best_error_out rs) \<and>
              best_test st' = last (best_test st # map best_test_out rs)"
  using assms
proof (induction eps arbitrary: st)
  case Nil
  then show ?case by simp
next
  case (Cons ep eps)
  show ?case
  proof (cases "epoch_step E o' crit trb vb tb st ep")
    case (Inl e)
    with Cons.prems have "st' = st" by simp
    then show ?thesis by simp
  next
    case (Inr st1)
    with Cons.prems have "run_epochs E o' crit trb vb tb st1 eps = (st', err)"
      by simp
    from Cons.IH [OF this] obtain rs where
      o: "outs st' = outs st1 @ rs" and
      t: "trace_ok E o' (best_error st1) (best_test st1) rs" and
      e: "map epoch rs = take (length rs) eps" and
      b: "best_error st' = last (best_error st1 # map best_error_out rs)" and
      bt: "best_test st' = last (best_test st1 # map best_test_out rs)"
      by blast
    from epoch_step_out [OF Inr] obtain r where
      o1: "outs st1 = outs st @ [r]" and e1: "epoch r = ep" and
      t1: "turn_ok E o' (best_error st) (best_test st) r" and
      b1: "best_error st1 = best_error_out r" and bt1: "best_test st1 = best_test_out r"
      by blast
    have "outs st' = outs st @ (r # rs)"
      using o o1 by simp
    moreover have "trace_ok E o' (best_error st) (best_test st) (r # rs)"
      using t t1 b1 bt1 by simp
    moreover have "map epoch (r # rs) = take (length (r # rs)) (ep # eps)"
      using e e1 by simp
    moreover have "best_error st' = last (best_error st # map best_error_out (r # rs))"
      using b b1 by simp
    moreover have "best_test st' = last (best_test st # map best_test_out (r # rs))"
      using bt bt1 by simp
    ultimately show ?thesis by blast
  qed
qed

lemma improves_0: "improves b (v # vs) 0 = (v < b)"
  by (simp add: improves_def)

lemma improves_Suc: "improves b (v # vs) (Suc i) = improves (min v b) vs i"
  by (auto simp: improves_def)



lemma trace_best_test_unchanged:
  assumes "trace_ok E o' b t rs" and "i < length rs"
    and "\<forall>j\<le>i. \<not> improves b (valid_maes rs) j"
  shows "best_test_out (rs ! i) = t"
  using assms
proof (induction rs arbitrary: b t i)
  case Nil
  then show ?case by simp
next
  case (Cons r rs)
  from Cons.prems(1) have t: "turn_ok E o' b t r"
    and rest: "trace_ok E o' (best_error_out r) (best_test_out r) rs"
    by simp_all
  from Cons.prems(3) have n0: "\<not> valid_error r ! 0 < b"
    by (auto simp: valid_maes_def improves_0 dest: spec [of _ 0])
  with t have bt: "best_test_out r = t" and be: "best_error_out r = min (valid_error r ! 0) b"
    by (simp_all add: turn_ok_def)
  show ?case
  proof (cases i)
    case 0
    with bt show ?thesis by simp
  next
    case (Suc j)
    with Cons.prems(2) have j: "j < length rs" by simp
    have "\<forall>k\<le>j. \<not> improves (best_error_out r) (valid_maes rs) k"
    proof (intro allI impI)
      fix k assume "k \<le> j"
      then have "Suc k \<le> i" using Suc by simp
      with Cons.prems(3) have "\<not> improves b (valid_maes (r # rs)) (Suc k)" by blast
      then show "\<not> improves (best_error_out r) (valid_maes rs) k"
        by (simp add: valid_maes_def improves_Suc be)
    qed
    from Cons.IH [OF rest j this] Suc bt show ?thesis by simp
  qed
qed

lemma trace_best_test_snapshot:
  assumes "trace_ok E o' b t rs" and "i < length rs" and "j \<le> i"
    and "improves b (valid_maes rs) j"
    and "\<forall>k. j < k \<and> k \<le> i \<longrightarrow> \<not> improves b (valid_maes rs) k"
  shows "best_test_out (rs ! i) = test_error (rs ! j)"
  using assms
proof (induction rs arbitrary: b t i j)
  case Nil
  then show ?case by simp
next
  case (Cons r rs)
  from Cons.prems(1) have t: "turn_ok E o' b t r"
    and rest: "trace_ok E o' (best_error_out r) (best_test_out r) rs"
    by simp_all
  from t have be: "best_error_out r = min (valid_error r ! 0) b"
    by (simp add: turn_ok_def)
  show ?case
  proof (cases j)
    case 0
    with Cons.prems(4) have "valid_error r ! 0 < b"
      by (simp add: valid_maes_def improves_0)
    with t have bt: "best_test_out r = test_error r"
      by (simp add: turn_ok_def)
    show ?thesis
    proof (cases i)
      case 0
      with \<open>j = 0\<close> bt show ?thesis by simp
    next
      case (Suc i')
      with Cons.prems(2) have i': "i' < length rs" by simp
      have "\<forall>k\<le>i'. \<not> improves (best_error_out r) (valid_maes rs) k"
      proof (intro allI impI)
        fix k assume "k \<le> i'"
        then have "j < Suc k \<and> Suc k \<le> i" using Suc \<open>j = 0\<close> by simp
        with Cons.prems(5) have "\<not> improves b (valid_maes (r # rs)) (Suc k)" by blast
        then show "\<not> improves (best_error_out r) (valid_maes rs) k"
          by (simp add: valid_maes_def improves_Suc be)
      qed
      from trace_best_test_unchanged [OF rest i' this] Suc \<open>j = 0\<close> bt
      show ?thesis by simp
    qed
  next
    case (Suc j')
    with Cons.prems(3) obtain i' where i: "i = Suc i'" and le: "j' \<le> i'"
      by (cases i) simp_all
    with Cons.prems(2) have i': "i' < length rs" by simp
    from Cons.prems(4) Suc have imp: "improves (best_error_out r) (valid_maes rs) j'"
      by (simp add: valid_maes_def improves_Suc be)
    have "\<forall>k. j' < k \<and> k \<le> i' \<longrightarrow> \<not> improves (best_error_out r) (valid_maes rs) k"
    proof (intro allI impI)
      fix k assume "j' < k \<and> k \<le> i'"
      then have "j < Suc k \<and> Suc k \<le> i" using Suc i by simp
      with Cons.prems(5) have "\<not> improves b (valid_maes (r # rs)) (Suc k)" by blast
      then show "\<not> improves (best_error_out r) (valid_maes rs) k"
        by (simp add: valid_maes_def improves_Suc be)
    qed
    from Cons.IH [OF rest i' le imp this] Suc i show ?thesis by simp
  qed
qed

text \<open>A run of \<open>main\<close> that reaches the loop is the training routine from the
  state the resume block leaves, and its output is a trace in order.\<close>

lemma main_unfold:
  assumes "main E args fs = Inr (st, err)" and "parse_option (float_str E) args = Inr o'"
  shows "\<exists>m s start.
           resume_block E o' fs (fst (set_model E o'))
               (set_optimizer E o' (weights (fst (set_model E o')))) = Inr (m, s, start) \<and>
           training_routine E o' (snd (set_model E o')) (set_loader E o') m s fs start = (st, err)"
  using assms
  by (auto simp: main_def split: sum.splits prod.splits)

lemma training_routine_trace:
  assumes "training_routine E o' crit loaders m s fs start = (st, err)"
  shows "trace_ok E o' (10 ^ 10) [10 ^ 10, 10 ^ 10, 10 ^ 10, 10 ^ 10, 10 ^ 10] (outs st) \<and>
         map epoch (outs st) = take (length (outs st)) [start..epochs o'] \<and>
         best_error st = last (10 ^ 10 # map best_error_out (outs st)) \<and>
         best_test st
           = last ([10 ^ 10, 10 ^ 10, 10 ^ 10, 10 ^ 10, 10 ^ 10] # map best_test_out (outs st))"
proof -
  obtain trb vb tb where l: "loaders = (trb, vb, tb)"
    by (cases loaders) auto
  with assms have "run_epochs E o' crit trb vb tb (init_state m s fs) [start..epochs o'] = (st, err)"
    by (simp add: training_routine_def)
  from run_epochs_trace [OF this] show ?thesis
    by (auto simp: init_state_def)
qed

lemma main_trace:
  assumes "main E args fs = Inr (st, err)" and "parse_option (float_str E) args = Inr o'"
  shows "trace_ok E o' (10 ^ 10) [10 ^ 10, 10 ^ 10, 10 ^ 10, 10 ^ 10, 10 ^ 10] (outs st) \<and>
         best_test st
           = last ([10 ^ 10, 10 ^ 10, 10 ^ 10, 10 ^ 10, 10 ^ 10] # map best_test_out (outs st))"
proof -
  from main_unfold [OF assms] obtain m s start where
    "training_routine E o' (snd (set_model E o')) (set_loader E o') m s fs start = (st, err)"
    by blast
  from training_routine_trace [OF this] show ?thesis by simp
qed

lemma main_parsed:
  assumes "main E args fs = Inr r"
  shows "\<exists>o'. parse_option (float_str E) args = Inr o'"
  using assms by (auto simp: main_def split: sum.splits)




lemmas demo_simps = main_def training_routine_def set_loader_def demo_env_def demo_args_def
  default_opt_def parse_option_def Let_def set_model_def resume_block_def init_state_def
  upto.simps epoch_step_def train_def validate_def statistics_def set_criterion_def
  batch_pred_def batch_truth_def MAE_def mean_def demo_scale_def

lemma demo_run:
  "\<exists>st. main demo_env demo_args Map.empty = Inr (st, None) \<and>
     map epoch (outs st) = [1, 2, 3, 4] \<and>
     valid_maes (outs st) = [5, 3, 4, 2] \<and>
     map (\<lambda>r. test_error r ! 0) (outs st) = [10, 6, 8, 4] \<and>
     map (\<lambda>r. saved_best r \<noteq> None) (outs st) = [True, True, False, True] \<and>
     map (\<lambda>r. saved r \<noteq> None) (outs st) = [False, True, False, True] \<and>
     map (\<lambda>r. best_test_out r ! 0) (outs st) = [10, 6, 6, 4]"
  by (simp add: demo_simps valid_maes_def)



text \<open>
  Claim C7. After every epoch the best test statistics are the test statistics of the
  most recent epoch whose validation MAE improved the running best, and the initial
  five times \<open>1e10\<close> when no epoch has improved it yet; between improvements they do
  not change. They are a function of the trace alone: nothing is read back from the
  best checkpoint. The record left by the run is the one of its last epoch.
\<close>

theorem best_test_snapshot:
  assumes "main E args fs = Inr (st, err)"
  shows "(\<forall>i<length (outs st).
            ((\<forall>j\<le>i. \<not> improves (10 ^ 10) (valid_maes (outs st)) j) \<longrightarrow>
               best_test_out (outs st ! i) = [10 ^ 10, 10 ^ 10, 10 ^ 10, 10 ^ 10, 10 ^ 10]) \<and>
            (\<forall>j\<le>i. improves (10 ^ 10) (valid_maes (outs st)) j \<and>
                   (\<forall>k. j < k \<and> k \<le> i \<longrightarrow> \<not> improves (10 ^ 10) (valid_maes (outs st)) k) \<longrightarrow>
               best_test_out (outs st ! i) = test_error (outs st ! j))) \<and>
         best_test st
           = last ([10 ^ 10, 10 ^ 10, 10 ^ 10, 10 ^ 10, 10 ^ 10] # map best_test_out (outs st))"
proof -
  from main_parsed [OF assms] obtain o' where p: "parse_option (float_str E) args = Inr o'"
    by blast
  from main_trace [OF assms p]
  have t: "trace_ok E o' (10 ^ 10) [10 ^ 10, 10 ^ 10, 10 ^ 10, 10 ^ 10, 10 ^ 10] (outs st)"
    and f: "best_test st
              = last ([10 ^ 10, 10 ^ 10, 10 ^ 10, 10 ^ 10, 10 ^ 10] # map best_test_out (outs st))"
    by simp_all
  have "\<forall>i<length (outs st).
            ((\<forall>j\<le>i. \<not> improves (10 ^ 10) (valid_maes (outs st)) j) \<longrightarrow>
               best_test_out (outs st ! i) = [10 ^ 10, 10 ^ 10, 10 ^ 10, 10 ^ 10, 10 ^ 10]) \<and>
            (\<forall>j\<le>i. improves (10 ^ 10) (valid_maes (outs st)) j \<and>
                   (\<forall>k. j < k \<and> k \<le> i \<longrightarrow> \<not> improves (10 ^ 10) (valid_maes (outs st)) k) \<longrightarrow>
               best_test_out (outs st ! i) = test_error (outs st ! j))"
  proof (intro allI impI conjI)
    fix i assume i: "i < length (outs st)"
      and n: "\<forall>j\<le>i. \<not> improves (10 ^ 10) (valid_maes (outs st)) j"
    show "best_test_out (outs st ! i) = [10 ^ 10, 10 ^ 10, 10 ^ 10, 10 ^ 10, 10 ^ 10]"
      by (rule trace_best_test_unchanged [OF t i n])
  next
    fix i j assume i: "i < length (outs st)" and j: "j \<le> i"
      and h: "improves (10 ^ 10) (valid_maes (outs st)) j \<and>
              (\<forall>k. j < k \<and> k \<le> i \<longrightarrow> \<not> improves (10 ^ 10) (valid_maes (outs st)) k)"
    from h have h1: "improves (10 ^ 10) (valid_maes (outs st)) j"
      and h2: "\<forall>k. j < k \<and> k \<le> i \<longrightarrow> \<not> improves (10 ^ 10) (valid_maes (outs st)) k"
      by simp_all
    show "best_test_out (outs st ! i) = test_error (outs st ! j)"
      by (rule trace_best_test_snapshot [OF t i j h1 h2])
  qed
  with f show ?thesis by simp
qed

lemma improves_demo_1: "improves (10 ^ 10) [5, 3, 4, 2] 1"
  by (simp add: improves_def)

lemma improves_demo_2: "\<not> improves (10 ^ 10) [5, 3, 4, 2] 2"
  by (simp add: improves_def numeral_2_eq_2)

theorem best_test_snapshot_witness:
  "\<exists>st. main demo_env demo_args Map.empty = Inr (st, None) \<and>
     2 < length (outs st) \<and>
     improves (10 ^ 10) (valid_maes (outs st)) 1 \<and>
     \<not> improves (10 ^ 10) (valid_maes (outs st)) 2 \<and>
     best_test_out (outs st ! 2) = test_error (outs st ! 1) \<and>
     map (\<lambda>r. test_error r ! 0) (outs st) = [10, 6, 8, 4] \<and>
     map (\<lambda>r. best_test_out r ! 0) (outs st) = [10, 6, 6, 4]"
proof -
  from demo_run obtain st where d: "main demo_env demo_args Map.empty = Inr (st, None) \<and>
     map epoch (outs st) = [1, 2, 3, 4] \<and>
     valid_maes (outs st) = [5, 3, 4, 2] \<and>
     map (\<lambda>r. test_error r ! 0) (outs st) = [10, 6, 8, 4] \<and>
     map (\<lambda>r. saved_best r \<noteq> None) (outs st) = [True, True, False, True] \<and>
     map (\<lambda>r. saved r \<noteq> None) (outs st) = [False, True, False, True] \<and>
     map (\<lambda>r. best_test_out r ! 0) (outs st) = [10, 6, 6, 4]" ..
  then have
    m: "main demo_env demo_args Map.empty = Inr (st, None)" and
    e: "map epoch (outs st) = [1, 2, 3, 4]" and
    v: "valid_maes (outs st) = [5, 3, 4, 2]" and
    te: "map (\<lambda>r. test_error r ! 0) (outs st) = [10, 6, 8, 4]" and
    bt: "map (\<lambda>r. best_test_out r ! 0) (outs st) = [10, 6, 6, 4]"
    by simp_all
  have "length (map epoch (outs st)) = 4"
    by (simp only: e) simp
  then have i: "2 < length (outs st)"
    by simp
  have i1: "improves (10 ^ 10) (valid_maes (outs st)) 1"
    unfolding v by (rule improves_demo_1)
  have i2: "\<not> improves (10 ^ 10) (valid_maes (outs st)) 2"
    unfolding v by (rule improves_demo_2)
  have n: "\<forall>k. 1 < k \<and> k \<le> 2 \<longrightarrow> \<not> improves (10 ^ 10) (valid_maes (outs st)) k"
  proof (intro allI impI)
    fix k :: nat assume "1 < k \<and> k \<le> 2"
    then have "k = 2" by simp
    with i2 show "\<not> improves (10 ^ 10) (valid_maes (outs st)) k" by simp
  qed
  from best_test_snapshot [OF m] i i1 n
  have "best_test_out (outs st ! 2) = test_error (outs st ! 1)"
    by (metis one_le_numeral)
  with m i i1 i2 te bt show ?thesis
    by (intro exI [of _ st] conjI)
qed








subsection \<open>Resuming\<close>











subsection \<open>The option save\_curr\_freq\<close>









subsection \<open>The derived run name\<close>

text \<open>
  Claim C9. The derived \<open>model_name\<close> and \<open>save_folder\<close> are a function of the run
  configuration: two option sets that agree on loss, dataset, model, epochs, learning
  rate, decay rate, weight decay, alpha, momentum, batch size, augmentation list,
  trial and resume path get the same two strings (or the same parser error),
  whatever their other options are.
\<close>

theorem run_name_deterministic:
  assumes "same_run_config a b"
  shows "derived_names fstr a = derived_names fstr b"
  using assms
  by (simp add: derived_names_def parse_option_def default_model_name_def
        same_run_config_def Let_def split: sum.splits)

theorem run_name_deterministic_witness:
  "same_run_config default_opt
     (default_opt\<lparr>print_freq := 5, save_curr_freq := 7, data_folder := ''data''\<rparr>) \<and>
   derived_names (\<lambda>r. ''x'') default_opt
     = derived_names (\<lambda>r. ''x'')
         (default_opt\<lparr>print_freq := 5, save_curr_freq := 7, data_folder := ''data''\<rparr>)"
proof -
  have h: "same_run_config default_opt
     (default_opt\<lparr>print_freq := 5, save_curr_freq := 7, data_folder := ''data''\<rparr>)"
    by (simp add: same_run_config_def)
  from h run_name_deterministic [OF h] show ?thesis by simp
qed

end
